theory Spec2Isabelle
  imports Complex_Main
begin

section \<open>Python values, exceptions and the system the program queries\<close>

text \<open>
  The program is Python 2 (it uses \<^verbatim>\<open>basestring\<close>): a \<^verbatim>\<open>str\<close> is a byte string, which
  is what \<^typ>\<open>string\<close> is here; a \<^verbatim>\<open>unicode\<close> object is a list of code points; the
  operator \<^verbatim>\<open>/\<close> on two integers is floor division. A float is modelled by the real
  number it denotes: the program performs no arithmetic on floats, it only hands one on.
\<close>

type_synonym unicode = "nat list"

datatype pyobj =
    PyNone
  | PyInt int
  | PyFloat real
  | PyStr string
  | PyUnicode unicode

datatype py_error =
    AssertionError string
  | CalledProcessError int "pyobj list" string
  | OSError int
  | TypeError
  | UnicodeDecodeError
  | IndexError
  | struct_error
  | RuntimeError string
  | SystemExit int

text \<open>
  What running a command gives: the process ran and exited with a status and its standard
  output, or \<^verbatim>\<open>Popen\<close> itself raised (the executable is missing, an argument is not a
  string).
\<close>

datatype proc_result = Exited int string | NotStarted py_error

record stat_result =
  st_mode :: nat
  st_ino :: nat
  st_dev :: nat
  st_nlink :: nat
  st_uid :: nat
  st_gid :: nat
  st_size :: nat
  st_atime :: real
  st_mtime :: real
  st_ctime :: real

datatype syscall = Exec "pyobj list" | Stat pyobj

text \<open>
  The system state the program reads: what every command line answers (the mount table
  through \<^verbatim>\<open>df\<close>, the extended attributes through \<^verbatim>\<open>getfattr\<close>), what
  \<^verbatim>\<open>os.stat\<close> answers for every path, the message catalogue behind \<^verbatim>\<open>_\<close>, and the
  log of the queries made so far. The program only ever appends to the log.
\<close>

record world =
  proc :: "pyobj list \<Rightarrow> proc_result"
  stat :: "pyobj \<Rightarrow> py_error + stat_result"
  gettext :: "string \<Rightarrow> string"
  calls :: "syscall list"

definition logged :: "syscall \<Rightarrow> world \<Rightarrow> world" where
  "logged c w = w\<lparr>calls := calls w @ [c]\<rparr>"

text \<open>\<^verbatim>\<open>subprocess.check_output(argv)\<close>: the output on exit status 0, else an exception.\<close>

definition check_output :: "world \<Rightarrow> pyobj list \<Rightarrow> (py_error + string) \<times> world" where
  "check_output w argv =
     (case proc w argv of
        NotStarted e \<Rightarrow> Inl e
      | Exited rc out \<Rightarrow> if rc = 0 then Inr out else Inl (CalledProcessError rc argv out),
      logged (Exec argv) w)"

text \<open>\<^verbatim>\<open>os.stat(path)\<close>.\<close>

definition os_stat :: "world \<Rightarrow> pyobj \<Rightarrow> (py_error + stat_result) \<times> world" where
  "os_stat w path = (stat w path, logged (Stat path) w)"

section \<open>Library functions the program calls\<close>

text \<open>
  \<^verbatim>\<open>struct.unpack('>Q', s)[0]\<close>: the argument must be exactly 8 bytes; they are read as
  an unsigned integer, most significant byte first.
\<close>

definition be_uint :: "string \<Rightarrow> nat" where
  "be_uint s = foldl (\<lambda>acc c. acc * 256 + of_char c) 0 s"

definition struct_unpack_Q :: "string \<Rightarrow> py_error + int" where
  "struct_unpack_Q s = (if length s = 8 then Inr (int (be_uint s)) else Inl struct_error)"

text \<open>Python 2's \<^verbatim>\<open>/\<close> on two integers rounds towards minus infinity.\<close>

definition py2_div :: "int \<Rightarrow> int \<Rightarrow> int" where
  "py2_div a b = a div b"

text \<open>Division truncating towards zero, and \<^verbatim>\<open>struct.pack('>Q', n)\<close>, to state claims with.\<close>

definition trunc_div :: "int \<Rightarrow> int \<Rightarrow> int" where
  "trunc_div a b =
     (if (a < 0) = (b < 0) then \<bar>a\<bar> div \<bar>b\<bar> else - (\<bar>a\<bar> div \<bar>b\<bar>))"

definition pack_Q :: "nat \<Rightarrow> string" where
  "pack_Q n = map (\<lambda>i. char_of (n div 256 ^ i)) [7, 6, 5, 4, 3, 2, 1, 0]"

text \<open>
  \<^verbatim>\<open>s.decode('utf-8')\<close> of Python 2.7 (a build with 4-byte code units), error handling
  \<^verbatim>\<open>strict\<close>: the length of a sequence is read from its first byte; a first byte in
  \<^verbatim>\<open>80..C1\<close> or \<^verbatim>\<open>F5..FF\<close>, a missing or wrong continuation byte, an overlong
  form and a value above \<^verbatim>\<open>10FFFF\<close> raise \<^verbatim>\<open>UnicodeDecodeError\<close>. Python 2 accepts the
  encodings of surrogates.
\<close>

definition is_cont :: "nat \<Rightarrow> bool" where
  "is_cont b = (128 \<le> b \<and> b < 192)"

fun utf8_units :: "nat list \<Rightarrow> unicode option" where
  "utf8_units [] = Some []"
| "utf8_units (b0 # bs) =
     (if b0 < 128 then map_option ((#) b0) (utf8_units bs)
      else if 194 \<le> b0 \<and> b0 \<le> 223 then
        (case bs of
           b1 # r \<Rightarrow>
             if is_cont b1
             then map_option ((#) ((b0 mod 32) * 64 + b1 mod 64)) (utf8_units r)
             else None
         | _ \<Rightarrow> None)
      else if 224 \<le> b0 \<and> b0 \<le> 239 then
        (case bs of
           b1 # b2 # r \<Rightarrow>
             if is_cont b1 \<and> is_cont b2 \<and> \<not> (b0 = 224 \<and> b1 < 160)
             then map_option ((#) ((b0 mod 16) * 4096 + (b1 mod 64) * 64 + b2 mod 64))
                    (utf8_units r)
             else None
         | _ \<Rightarrow> None)
      else if 240 \<le> b0 \<and> b0 \<le> 244 then
        (case bs of
           b1 # b2 # b3 # r \<Rightarrow>
             if is_cont b1 \<and> is_cont b2 \<and> is_cont b3
                \<and> \<not> (b0 = 240 \<and> b1 < 144) \<and> \<not> (b0 = 244 \<and> b1 > 143)
             then map_option
                    ((#) ((b0 mod 8) * 262144 + (b1 mod 64) * 4096 + (b2 mod 64) * 64
                          + b3 mod 64))
                    (utf8_units r)
             else None
         | _ \<Rightarrow> None)
      else None)"

definition decode_utf8 :: "string \<Rightarrow> py_error + unicode" where
  "decode_utf8 s =
     (case utf8_units (map of_char s) of None \<Rightarrow> Inl UnicodeDecodeError | Some u \<Rightarrow> Inr u)"

text \<open>
  \<^verbatim>\<open>u.splitlines()\<close> on a unicode object: a line ends at a line break character, which
  is dropped; a carriage return followed by a line feed is one break; no empty line is
  reported after a final break.
\<close>

definition is_linebreak :: "nat \<Rightarrow> bool" where
  "is_linebreak c = (c \<in> {10, 11, 12, 13, 28, 29, 30, 133, 8232, 8233})"

fun skip_break :: "unicode \<Rightarrow> unicode" where
  "skip_break [] = []"
| "skip_break [c] = []"
| "skip_break (c # d # r) = (if c = 13 \<and> d = 10 then r else d # r)"

function splitlines :: "unicode \<Rightarrow> unicode list" where
  "splitlines s =
     (if s = [] then []
      else takeWhile (\<lambda>c. \<not> is_linebreak c) s
           # splitlines (skip_break (dropWhile (\<lambda>c. \<not> is_linebreak c) s)))"
  by pat_completeness auto

lemma length_skip_break: "xs \<noteq> [] \<Longrightarrow> length (skip_break xs) < length xs"
  by (induction xs rule: skip_break.induct) auto

termination splitlines
proof (relation "measure length")
  show "wf (measure length)" by simp
next
  fix s :: unicode
  assume ne: "s \<noteq> []"
  let ?d = "dropWhile (\<lambda>c. \<not> is_linebreak c) s"
  have "length (skip_break ?d) < length s"
  proof (cases "?d = []")
    case True
    with ne show ?thesis
      by (metis length_greater_0_conv list.size(3) skip_break.simps(1))
  next
    case False
    then have "length (skip_break ?d) < length ?d" by (rule length_skip_break)
    also have "length ?d \<le> length s" by (rule length_dropWhile_le)
    finally show ?thesis .
  qed
  then show "(skip_break ?d, s) \<in> measure length" by simp
qed

text \<open>
  \<^verbatim>\<open>u.split()\<close> with no argument: the maximal runs of characters that are not white
  space, in order.
\<close>

definition is_space :: "nat \<Rightarrow> bool" where
  "is_space c =
     (c \<in> {9, 10, 11, 12, 13, 28, 29, 30, 31, 32, 133, 160, 5760, 6158, 8232, 8233, 8239,
            8287, 12288}
      \<or> (8192 \<le> c \<and> c \<le> 8202))"

function py_split :: "unicode \<Rightarrow> unicode list" where
  "py_split s =
     (case dropWhile is_space s of
        [] \<Rightarrow> []
      | c # r \<Rightarrow> takeWhile (\<lambda>c. \<not> is_space c) (c # r)
                 # py_split (dropWhile (\<lambda>c. \<not> is_space c) (c # r)))"
  by pat_completeness auto

lemma dropWhile_Cons_head: "dropWhile P xs = c # r \<Longrightarrow> \<not> P c"
  by (metis hd_dropWhile list.sel(1) list.distinct(1))

termination py_split
proof (relation "measure length")
  show "wf (measure length)" by simp
next
  fix s :: unicode and c r
  assume eq: "dropWhile is_space s = c # r"
  then have "\<not> is_space c" by (rule dropWhile_Cons_head)
  then have "length (dropWhile (\<lambda>c. \<not> is_space c) (c # r)) \<le> length r"
    by (simp add: length_dropWhile_le)
  also have "length r < length (dropWhile is_space s)" using eq by simp
  also have "\<dots> \<le> length s" by (rule length_dropWhile_le)
  finally show "(dropWhile (\<lambda>c. \<not> is_space c) (c # r), s) \<in> measure length" by simp
qed

declare splitlines.simps [simp del] py_split.simps [simp del]

text \<open>Indexing a list: \<^verbatim>\<open>xs[-1]\<close> and \<^verbatim>\<open>xs[1]\<close> raise \<^verbatim>\<open>IndexError\<close> out of range.\<close>

definition py_last :: "'a list \<Rightarrow> py_error + 'a" where
  "py_last xs = (if xs = [] then Inl IndexError else Inr (last xs))"

definition py_second :: "'a list \<Rightarrow> py_error + 'a" where
  "py_second xs = (if length xs < 2 then Inl IndexError else Inr (xs ! 1))"

text \<open>
  \<^verbatim>\<open>u == s\<close> for a unicode object and a \<^verbatim>\<open>str\<close>: the \<^verbatim>\<open>str\<close> is decoded as ASCII; if
  that fails the two are unequal.
\<close>

definition unicode_eq_str :: "unicode \<Rightarrow> string \<Rightarrow> bool" where
  "unicode_eq_str u s = ((\<forall>c \<in> set s. (of_char c :: nat) < 128) \<and> u = map of_char s)"

text \<open>\<^verbatim>\<open>isinstance(x, basestring)\<close>, and the truth value of an object (\<^verbatim>\<open>not x\<close> negates it).\<close>

fun is_basestring :: "pyobj \<Rightarrow> bool" where
  "is_basestring (PyStr s) = True"
| "is_basestring (PyUnicode u) = True"
| "is_basestring x = False"

fun truthy :: "pyobj \<Rightarrow> bool" where
  "truthy PyNone = False"
| "truthy (PyInt n) = (n \<noteq> 0)"
| "truthy (PyFloat x) = (x \<noteq> 0)"
| "truthy (PyStr s) = (s \<noteq> [])"
| "truthy (PyUnicode u) = (u \<noteq> [])"

section \<open>The program\<close>

text \<open>
  \<^verbatim>\<open>
  def get_file_system(path):
      assert isinstance(path, basestring), "Bad object type given for path"
      df = subprocess.check_output(['df', '-T', path])
      df = df.decode('utf-8').splitlines()[-1]
      return df.split()[1]
  \<close>
\<close>

definition df_argv :: "pyobj \<Rightarrow> pyobj list" where
  "df_argv path = [PyStr ''df'', PyStr ''-T'', path]"

definition fs_field :: "string \<Rightarrow> py_error + unicode" where
  "fs_field df =
     (case decode_utf8 df of
        Inl e \<Rightarrow> Inl e
      | Inr text \<Rightarrow>
          (case py_last (splitlines text) of
             Inl e \<Rightarrow> Inl e
           | Inr line \<Rightarrow> py_second (py_split line)))"

definition get_file_system :: "world \<Rightarrow> pyobj \<Rightarrow> (py_error + unicode) \<times> world" where
  "get_file_system w path =
     (if \<not> is_basestring path
      then (Inl (AssertionError ''Bad object type given for path''), w)
      else (case check_output w (df_argv path) of
              (Inl e, w1) \<Rightarrow> (Inl e, w1)
            | (Inr df, w1) \<Rightarrow> (fs_field df, w1)))"

text \<open>
  \<^verbatim>\<open>
  def get_vfat_crtime(path):
      ctime = os.stat(path).st_ctime
      return ctime
  \<close>
\<close>

definition get_vfat_crtime :: "world \<Rightarrow> pyobj \<Rightarrow> (py_error + pyobj) \<times> world" where
  "get_vfat_crtime w path =
     (case os_stat w path of
        (Inl e, w1) \<Rightarrow> (Inl e, w1)
      | (Inr st, w1) \<Rightarrow> (Inr (PyFloat (st_ctime st)), w1))"

text \<open>
  \<^verbatim>\<open>
  def get_ntfs_crtime(path):
      raw_crtime = subprocess.check_output(['getfattr', '--only-values', '-n',
                                            'system.ntfs_crtime_be', path])
      int_time = struct.unpack('>Q', raw_crtime)[0]/10000000 - 11644473600
      return int_time
  \<close>
\<close>

definition getfattr_argv :: "pyobj \<Rightarrow> pyobj list" where
  "getfattr_argv path =
     [PyStr ''getfattr'', PyStr ''--only-values'', PyStr ''-n'',
      PyStr ''system.ntfs_crtime_be'', path]"

definition get_ntfs_crtime :: "world \<Rightarrow> pyobj \<Rightarrow> (py_error + pyobj) \<times> world" where
  "get_ntfs_crtime w path =
     (case check_output w (getfattr_argv path) of
        (Inl e, w1) \<Rightarrow> (Inl e, w1)
      | (Inr raw_crtime, w1) \<Rightarrow>
          (case struct_unpack_Q raw_crtime of
             Inl e \<Rightarrow> (Inl e, w1)
           | Inr ticks \<Rightarrow> (Inr (PyInt (py2_div ticks 10000000 - 11644473600)), w1)))"

text \<open>
  \<^verbatim>\<open>
  def get_crtime(path):
      fs = get_file_system(path)
      if fs == 'fuseblk':
          crtime = get_ntfs_crtime(path)
      elif fs == 'vfat':
          crtime = get_vfat_crtime(path)
      else:
          return
      return crtime
  \<close>
\<close>

definition get_crtime :: "world \<Rightarrow> pyobj \<Rightarrow> (py_error + pyobj) \<times> world" where
  "get_crtime w path =
     (case get_file_system w path of
        (Inl e, w1) \<Rightarrow> (Inl e, w1)
      | (Inr fs, w1) \<Rightarrow>
          if unicode_eq_str fs ''fuseblk'' then get_ntfs_crtime w1 path
          else if unicode_eq_str fs ''vfat'' then get_vfat_crtime w1 path
          else (Inr PyNone, w1))"

text \<open>
  The interactive caller. What it prints is kept as an event: the usage message, or
  \<^verbatim>\<open>time.ctime\<close> of a value (the local calendar form is not modelled, and the
  formatting is taken to succeed).
  \<^verbatim>\<open>
  try:
      path = sys.argv[1]
  except IndexError:
      print(_("ERROR: need one command line argument: filename"))
      sys.exit(1)
  crtime = get_crtime(path)
  if not crtime:
      raise RuntimeError(_("Unsupported filesystem"))
  print(time.ctime(crtime))
  \<close>
\<close>

datatype printed = Message string | Ctime pyobj

record outcome =
  stdout :: "printed list"
  raised :: "py_error option"
  after :: world

definition main :: "world \<Rightarrow> string list \<Rightarrow> outcome" where
  "main w argv =
     (if length argv < 2
      then \<lparr>stdout = [Message (gettext w ''ERROR: need one command line argument: filename'')],
            raised = Some (SystemExit 1), after = w\<rparr>
      else (case get_crtime w (PyStr (argv ! 1)) of
              (Inl e, w1) \<Rightarrow> \<lparr>stdout = [], raised = Some e, after = w1\<rparr>
            | (Inr crtime, w1) \<Rightarrow>
                if \<not> truthy crtime
                then \<lparr>stdout = [], raised = Some (RuntimeError (gettext w1 ''Unsupported filesystem'')),
                      after = w1\<rparr>
                else \<lparr>stdout = [Ctime crtime], raised = None, after = w1\<rparr>))"

section \<open>Example systems\<close>

text \<open>
  What \<^verbatim>\<open>df -T\<close> prints for a file on a mount of the given type: a header line and one
  line for the mount, each ended by a line feed.
\<close>

definition df_report :: "string \<Rightarrow> string" where
  "df_report fstype =
     ''Filesystem     Type    1K-blocks     Used Available Use% Mounted on'' @ [CHR 0x0A]
     @ ''/dev/sdb1      '' @ fstype @ '' 976760828 52428800 924332028   6% /mnt/disk''
     @ [CHR 0x0A]"

definition some_file :: pyobj where
  "some_file = PyStr ''/mnt/disk/a.txt''"

text \<open>
  A system with one file: \<^verbatim>\<open>df\<close> answers as given, \<^verbatim>\<open>getfattr\<close> answers as given,
  \<^verbatim>\<open>os.stat\<close> answers as given; every other command is missing (errno 2), there is no
  message catalogue, and no query has been made yet.
\<close>

definition host :: "proc_result \<Rightarrow> proc_result \<Rightarrow> py_error + stat_result \<Rightarrow> world" where
  "host df attr st =
     \<lparr>proc = (\<lambda>argv. if argv = df_argv some_file then df
                      else if argv = getfattr_argv some_file then attr
                      else NotStarted (OSError 2)),
      stat = (\<lambda>p. if p = some_file then st else Inl (OSError 2)),
      gettext = (\<lambda>msg. msg),
      calls = []\<rparr>"

definition epoch_ticks :: string where
  "epoch_ticks = [CHR 0x01, CHR 0x9D, CHR 0xB1, CHR 0xDE, CHR 0xD5, CHR 0x3E, CHR 0x80, CHR 0x00]"

definition some_stat :: stat_result where
  "some_stat =
     \<lparr>st_mode = 33261, st_ino = 42, st_dev = 2065, st_nlink = 1, st_uid = 1000, st_gid = 1000,
      st_size = 5, st_atime = 1500000300, st_mtime = 1500000200, st_ctime = 1500000100.5\<rparr>"

definition ntfs_host :: world where
  "ntfs_host = host (Exited 0 (df_report ''fuseblk'')) (Exited 0 epoch_ticks) (Inr some_stat)"

definition vfat_host :: world where
  "vfat_host = host (Exited 0 (df_report ''vfat'')) (NotStarted (OSError 2)) (Inr some_stat)"

definition ext4_host :: world where
  "ext4_host = host (Exited 0 (df_report ''ext4'')) (NotStarted (OSError 2)) (Inl (OSError 2))"

text \<open>A system without \<^verbatim>\<open>df\<close>, and an NTFS mount on a system without \<^verbatim>\<open>getfattr\<close>.\<close>

definition no_df_host :: world where
  "no_df_host = host (NotStarted (OSError 2)) (Exited 0 epoch_ticks) (Inr some_stat)"

definition no_getfattr_host :: world where
  "no_getfattr_host =
     host (Exited 0 (df_report ''fuseblk'')) (NotStarted (OSError 2)) (Inr some_stat)"

text \<open>\<^verbatim>\<open>df\<close> exits with status 1 (no such file); the attribute is missing on an NTFS mount.\<close>

definition df_fails_host :: world where
  "df_fails_host = host (Exited 1 []) (Exited 0 epoch_ticks) (Inr some_stat)"

definition no_attr_host :: world where
  "no_attr_host = host (Exited 0 (df_report ''fuseblk'')) (Exited 1 []) (Inr some_stat)"

section \<open>Properties\<close>

subsection \<open>What a call does to the system, and what it depends on\<close>

lemma proc_logged: "proc (logged c w) = proc w"
  and stat_logged: "stat (logged c w) = stat w"
  and gettext_logged: "gettext (logged c w) = gettext w"
  and calls_logged: "calls (logged c w) = calls w @ [c]"
  by (simp_all add: logged_def)

lemma snd_check_output: "snd (check_output w argv) = logged (Exec argv) w"
  by (simp add: check_output_def)

lemma check_output_Exited_0:
  "proc w argv = Exited 0 out \<Longrightarrow> check_output w argv = (Inr out, logged (Exec argv) w)"
  by (simp add: check_output_def)

lemma check_output_NotStarted:
  "proc w argv = NotStarted e \<Longrightarrow> check_output w argv = (Inl e, logged (Exec argv) w)"
  by (simp add: check_output_def)

lemma check_output_nonzero:
  "proc w argv = Exited rc out \<Longrightarrow> rc \<noteq> 0 \<Longrightarrow>
   check_output w argv = (Inl (CalledProcessError rc argv out), logged (Exec argv) w)"
  by (simp add: check_output_def)

lemma check_output_failure:
  assumes "proc w argv = NotStarted e
           \<or> (\<exists>rc out. proc w argv = Exited rc out \<and> rc \<noteq> 0
                         \<and> e = CalledProcessError rc argv out)"
  shows "check_output w argv = (Inl e, logged (Exec argv) w)"
  using assms by (auto simp: check_output_def)

lemma snd_get_file_system:
  "snd (get_file_system w path) = (if is_basestring path then logged (Exec (df_argv path)) w else w)"
  by (simp add: get_file_system_def check_output_def split: proc_result.splits)

lemma snd_get_ntfs_crtime: "snd (get_ntfs_crtime w path) = logged (Exec (getfattr_argv path)) w"
  by (simp add: get_ntfs_crtime_def check_output_def split: proc_result.splits sum.splits)

lemma snd_get_vfat_crtime: "snd (get_vfat_crtime w path) = logged (Stat path) w"
  by (simp add: get_vfat_crtime_def os_stat_def split: sum.splits)

lemma fst_get_file_system_cong:
  "proc w2 (df_argv path) = proc w1 (df_argv path) \<Longrightarrow>
   fst (get_file_system w2 path) = fst (get_file_system w1 path)"
  by (simp add: get_file_system_def check_output_def split: proc_result.splits)

lemma fst_get_ntfs_crtime_cong:
  "proc w2 (getfattr_argv path) = proc w1 (getfattr_argv path) \<Longrightarrow>
   fst (get_ntfs_crtime w2 path) = fst (get_ntfs_crtime w1 path)"
  by (simp add: get_ntfs_crtime_def check_output_def split: proc_result.splits sum.splits)

lemma fst_get_vfat_crtime_cong:
  "stat w2 path = stat w1 path \<Longrightarrow>
   fst (get_vfat_crtime w2 path) = fst (get_vfat_crtime w1 path)"
  by (simp add: get_vfat_crtime_def os_stat_def split: sum.splits)

lemma get_crtime_unfold:
  "get_crtime w path =
     (case fst (get_file_system w path) of
        Inl e \<Rightarrow> (Inl e, snd (get_file_system w path))
      | Inr fs \<Rightarrow>
          if unicode_eq_str fs ''fuseblk'' then get_ntfs_crtime (snd (get_file_system w path)) path
          else if unicode_eq_str fs ''vfat'' then get_vfat_crtime (snd (get_file_system w path)) path
          else (Inr PyNone, snd (get_file_system w path)))"
  by (simp add: get_crtime_def split: prod.splits sum.splits)

lemma get_crtime_frame:
  "proc (snd (get_crtime w path)) = proc w"
  "stat (snd (get_crtime w path)) = stat w"
  "gettext (snd (get_crtime w path)) = gettext w"
  by (simp_all add: get_crtime_unfold snd_get_file_system snd_get_ntfs_crtime
      snd_get_vfat_crtime proc_logged stat_logged gettext_logged split: sum.splits)

lemma get_file_system_frame:
  "proc (snd (get_file_system w path)) = proc w"
  "stat (snd (get_file_system w path)) = stat w"
  "gettext (snd (get_file_system w path)) = gettext w"
  by (simp_all add: snd_get_file_system proc_logged stat_logged gettext_logged)

lemma get_file_system_Inr_basestring:
  "fst (get_file_system w path) = Inr fs \<Longrightarrow> is_basestring path"
  by (auto simp: get_file_system_def split: if_splits)

lemma get_file_system_Inr_world:
  assumes "get_file_system w path = (Inr fs, w1)"
  shows "w1 = logged (Exec (df_argv path)) w"
proof -
  have "is_basestring path"
    using assms get_file_system_Inr_basestring [of w path fs] by simp
  then show ?thesis
    using assms snd_get_file_system [of w path] by simp
qed

lemma get_file_system_failure:
  assumes "is_basestring path" and "fst (check_output w (df_argv path)) = Inl e"
  shows "fst (get_file_system w path) = Inl e"
  using assms by (cases "check_output w (df_argv path)") (auto simp: get_file_system_def)

lemma get_crtime_classify_failure:
  "fst (get_file_system w path) = Inl e \<Longrightarrow> fst (get_crtime w path) = Inl e"
  by (simp add: get_crtime_unfold)

lemma get_ntfs_crtime_failure:
  "fst (check_output w (getfattr_argv path)) = Inl e \<Longrightarrow> fst (get_ntfs_crtime w path) = Inl e"
  by (cases "check_output w (getfattr_argv path)") (auto simp: get_ntfs_crtime_def)

lemma get_ntfs_crtime_malformed:
  "proc w (getfattr_argv path) = Exited 0 out \<Longrightarrow> length out \<noteq> 8 \<Longrightarrow>
   fst (get_ntfs_crtime w path) = Inl struct_error"
  by (simp add: get_ntfs_crtime_def check_output_Exited_0 struct_unpack_Q_def)

lemma get_crtime_ntfs:
  assumes "fst (get_file_system w path) = Inr fs" and "unicode_eq_str fs ''fuseblk''"
  shows "fst (get_crtime w path) = fst (get_ntfs_crtime w path)"
proof -
  have "fst (get_crtime w path) = fst (get_ntfs_crtime (snd (get_file_system w path)) path)"
    using assms by (simp add: get_crtime_unfold)
  also have "\<dots> = fst (get_ntfs_crtime w path)"
    by (rule fst_get_ntfs_crtime_cong) (simp add: get_file_system_frame)
  finally show ?thesis .
qed

lemma get_crtime_vfat:
  assumes "fst (get_file_system w path) = Inr fs" and "\<not> unicode_eq_str fs ''fuseblk''"
    and "unicode_eq_str fs ''vfat''"
  shows "fst (get_crtime w path) = fst (get_vfat_crtime w path)"
proof -
  have "fst (get_crtime w path) = fst (get_vfat_crtime (snd (get_file_system w path)) path)"
    using assms by (simp add: get_crtime_unfold)
  also have "\<dots> = fst (get_vfat_crtime w path)"
    by (rule fst_get_vfat_crtime_cong) (simp add: get_file_system_frame)
  finally show ?thesis .
qed

lemma vfat_not_fuseblk: "unicode_eq_str fs ''vfat'' \<Longrightarrow> \<not> unicode_eq_str fs ''fuseblk''"
  by (auto simp: unicode_eq_str_def)

lemma get_vfat_crtime_value:
  "stat w path = Inr st \<Longrightarrow>
   get_vfat_crtime w path = (Inr (PyFloat (st_ctime st)), logged (Stat path) w)"
  by (simp add: get_vfat_crtime_def os_stat_def)

lemma get_vfat_crtime_failure:
  "stat w path = Inl e \<Longrightarrow> fst (get_vfat_crtime w path) = Inl e"
  by (simp add: get_vfat_crtime_def os_stat_def)

lemma get_crtime_None_iff:
  "fst (get_crtime w path) = Inr PyNone \<longleftrightarrow>
     (\<exists>fs. fst (get_file_system w path) = Inr fs
           \<and> \<not> unicode_eq_str fs ''fuseblk'' \<and> \<not> unicode_eq_str fs ''vfat'')"
proof -
  have ntfs: "fst (get_ntfs_crtime w' path) \<noteq> Inr PyNone" for w'
    by (cases "check_output w' (getfattr_argv path)")
       (auto simp: get_ntfs_crtime_def split: sum.splits)
  have vfat: "fst (get_vfat_crtime w' path) \<noteq> Inr PyNone" for w'
    by (auto simp: get_vfat_crtime_def os_stat_def split: sum.splits)
  show ?thesis
    by (cases "fst (get_file_system w path)") (auto simp: get_crtime_unfold ntfs vfat)
qed

lemma unicode_eq_str_fuseblk: "unicode_eq_str fs ''fuseblk'' \<longleftrightarrow> fs = [102, 117, 115, 101, 98, 108, 107]"
  by (simp add: unicode_eq_str_def)

lemma unicode_eq_str_vfat: "unicode_eq_str fs ''vfat'' \<longleftrightarrow> fs = [118, 102, 97, 116]"
  by (simp add: unicode_eq_str_def)

lemma py_split_fields:
  "f \<in> set (py_split s) \<Longrightarrow> f \<noteq> [] \<and> (\<forall>c \<in> set f. \<not> is_space c)"
proof (induction s rule: py_split.induct)
  case (1 s)
  show ?case
  proof (cases "dropWhile is_space s")
    case Nil
    with "1.prems" show ?thesis by (simp add: py_split.simps [of s])
  next
    case (Cons c r)
    then have c: "\<not> is_space c" by (rule dropWhile_Cons_head)
    from "1.prems" Cons
    have "f = takeWhile (\<lambda>c. \<not> is_space c) (c # r)
          \<or> f \<in> set (py_split (dropWhile (\<lambda>c. \<not> is_space c) (c # r)))"
      by (simp add: py_split.simps [of s])
    then show ?thesis
    proof
      assume f: "f = takeWhile (\<lambda>c. \<not> is_space c) (c # r)"
      then have "f \<noteq> []" using c by simp
      moreover have "\<forall>x \<in> set f. \<not> is_space x"
        unfolding f by (metis (mono_tags, lifting) set_takeWhileD)
      ultimately show ?thesis by simp
    next
      assume "f \<in> set (py_split (dropWhile (\<lambda>c. \<not> is_space c) (c # r)))"
      then show ?thesis by (rule "1.IH" [OF Cons])
    qed
  qed
qed

lemma fs_field_Inr_iff:
  "fs_field out = Inr fs \<longleftrightarrow>
     (\<exists>text. decode_utf8 out = Inr text \<and> splitlines text \<noteq> []
            \<and> 2 \<le> length (py_split (last (splitlines text)))
            \<and> fs = py_split (last (splitlines text)) ! 1)"
  by (auto simp: fs_field_def py_last_def py_second_def split: sum.splits if_splits)

lemma fs_field_nonempty:
  assumes "fs_field out = Inr fs"
  shows "fs \<noteq> [] \<and> (\<forall>c \<in> set fs. \<not> is_space c)"
proof -
  from assms obtain u where "2 \<le> length (py_split (last (splitlines u)))"
    and "fs = py_split (last (splitlines u)) ! 1"
    unfolding fs_field_Inr_iff by blast
  then have "fs \<in> set (py_split (last (splitlines u)))" by simp
  then show ?thesis by (rule py_split_fields)
qed

subsection \<open>Decoding the NTFS time stamp\<close>

lemma be_uint_8:
  "be_uint [b7, b6, b5, b4, b3, b2, b1, b0] =
     of_char b7 * 256 ^ 7 + of_char b6 * 256 ^ 6 + of_char b5 * 256 ^ 5 + of_char b4 * 256 ^ 4
     + of_char b3 * 256 ^ 3 + of_char b2 * 256 ^ 2 + of_char b1 * 256 + of_char b0"
  by (simp add: be_uint_def)

lemma length_pack_Q: "length (pack_Q n) = 8"
  by (simp add: pack_Q_def)

lemma be_uint_pack_Q:
  assumes "n < 2 ^ 64"
  shows "be_uint (pack_Q n) = n"
proof -
  define n1 where "n1 = n div 256"
  define n2 where "n2 = n1 div 256"
  define n3 where "n3 = n2 div 256"
  define n4 where "n4 = n3 div 256"
  define n5 where "n5 = n4 div 256"
  define n6 where "n6 = n5 div 256"
  define n7 where "n7 = n6 div 256"
  have d1: "n div 256 = n1" by (simp add: n1_def)
  have d2: "n div 65536 = n2" unfolding n2_def n1_def by (simp add: div_mult2_eq)
  have d3: "n div 16777216 = n3" unfolding n3_def n2_def n1_def by (simp add: div_mult2_eq)
  have d4: "n div 4294967296 = n4"
    unfolding n4_def n3_def n2_def n1_def by (simp add: div_mult2_eq)
  have d5: "n div 1099511627776 = n5"
    unfolding n5_def n4_def n3_def n2_def n1_def by (simp add: div_mult2_eq)
  have d6: "n div 281474976710656 = n6"
    unfolding n6_def n5_def n4_def n3_def n2_def n1_def by (simp add: div_mult2_eq)
  have d7: "n div 72057594037927936 = n7"
    unfolding n7_def n6_def n5_def n4_def n3_def n2_def n1_def by (simp add: div_mult2_eq)
  have top: "n7 < 256" using assms d7 by (simp add: less_mult_imp_div_less flip: d7)
  have e0: "n = n mod 256 + 256 * n1" by (simp add: n1_def)
  have e1: "n1 = n1 mod 256 + 256 * n2" by (simp add: n2_def)
  have e2: "n2 = n2 mod 256 + 256 * n3" by (simp add: n3_def)
  have e3: "n3 = n3 mod 256 + 256 * n4" by (simp add: n4_def)
  have e4: "n4 = n4 mod 256 + 256 * n5" by (simp add: n5_def)
  have e5: "n5 = n5 mod 256 + 256 * n6" by (simp add: n6_def)
  have e6: "n6 = n6 mod 256 + 256 * n7" by (simp add: n7_def)
  have e7: "n7 mod 256 = n7" using top by simp
  have "be_uint (pack_Q n) =
          n7 mod 256 * 72057594037927936 + n6 mod 256 * 281474976710656
          + n5 mod 256 * 1099511627776 + n4 mod 256 * 4294967296 + n3 mod 256 * 16777216
          + n2 mod 256 * 65536 + n1 mod 256 * 256 + n mod 256"
    by (simp add: be_uint_def pack_Q_def of_char_of d1 d2 d3 d4 d5 d6 d7)
  also have "\<dots> = n"
    using e0 e1 e2 e3 e4 e5 e6 e7 by linarith
  finally show ?thesis .
qed

lemma trunc_div_nonneg: "0 \<le> a \<Longrightarrow> 0 < b \<Longrightarrow> trunc_div a b = a div b"
  by (simp add: trunc_div_def)

lemma get_ntfs_crtime_raw:
  assumes "proc w (getfattr_argv path) = Exited 0 raw" and "length raw = 8"
  shows "get_ntfs_crtime w path =
           (Inr (PyInt (int (be_uint raw) div 10000000 - 11644473600)),
            logged (Exec (getfattr_argv path)) w)"
  using assms
  by (simp add: get_ntfs_crtime_def check_output_Exited_0 struct_unpack_Q_def py2_div_def)

lemma pack_Q_epoch: "pack_Q 116444736000000000 = epoch_ticks"
  by (simp add: pack_Q_def epoch_ticks_def char_of_def bit_0)

lemma proc_ntfs_host_getfattr: "proc ntfs_host (getfattr_argv some_file) = Exited 0 epoch_ticks"
  by (simp add: ntfs_host_def host_def getfattr_argv_def df_argv_def)

text \<open>
  Claim C1. Whenever \<^verbatim>\<open>getfattr\<close> delivers the 8 bytes that are the big-endian form of a
  tick count \<open>n\<close> below \<open>2 ^ 64\<close>, \<^verbatim>\<open>get_ntfs_crtime\<close> returns exactly the integer
  \<open>n\<close> divided by 10000000, truncated towards zero, minus 11644473600. In particular the
  tick count 116444736000000000 is decoded to the Unix time 0.
\<close>

theorem ntfs_crtime_decode:
  assumes "n < 2 ^ 64"
    and "proc w (getfattr_argv path) = Exited 0 (pack_Q n)"
  shows "fst (get_ntfs_crtime w path)
           = Inr (PyInt (trunc_div (int n) 10000000 - 11644473600))
         \<and> (n = 116444736000000000 \<longrightarrow> fst (get_ntfs_crtime w path) = Inr (PyInt 0))"
proof -
  have "fst (get_ntfs_crtime w path) = Inr (PyInt (int n div 10000000 - 11644473600))"
    using assms get_ntfs_crtime_raw [OF assms(2) length_pack_Q]
    by (simp add: be_uint_pack_Q)
  moreover have "trunc_div (int n) 10000000 = int n div 10000000"
    by (rule trunc_div_nonneg) simp_all
  ultimately show ?thesis by simp
qed

theorem ntfs_crtime_decode_witness:
  "(116444736000000000 :: nat) < 2 ^ 64
   \<and> proc ntfs_host (getfattr_argv some_file) = Exited 0 (pack_Q 116444736000000000)
   \<and> fst (get_ntfs_crtime ntfs_host some_file) = Inr (PyInt 0)"
proof -
  have small: "(116444736000000000 :: nat) < 2 ^ 64" by simp
  have answer: "proc ntfs_host (getfattr_argv some_file) = Exited 0 (pack_Q 116444736000000000)"
    by (simp only: proc_ntfs_host_getfattr pack_Q_epoch)
  show ?thesis
    using small answer ntfs_crtime_decode [OF small answer] by (simp add: trunc_div_def)
qed

subsection \<open>The example systems, evaluated\<close>

lemma fs_field_fuseblk: "fs_field (df_report ''fuseblk'') = Inr (map of_char ''fuseblk'')"
  by (simp add: fs_field_def df_report_def decode_utf8_def is_cont_def py_last_def
      py_second_def is_linebreak_def is_space_def splitlines.simps py_split.simps)

lemma fs_field_vfat: "fs_field (df_report ''vfat'') = Inr (map of_char ''vfat'')"
  by (simp add: fs_field_def df_report_def decode_utf8_def is_cont_def py_last_def
      py_second_def is_linebreak_def is_space_def splitlines.simps py_split.simps)

lemma fs_field_ext4: "fs_field (df_report ''ext4'') = Inr (map of_char ''ext4'')"
  by (simp add: fs_field_def df_report_def decode_utf8_def is_cont_def py_last_def
      py_second_def is_linebreak_def is_space_def splitlines.simps py_split.simps)

lemma proc_host_df: "proc (host df attr st) (df_argv some_file) = df"
  by (simp add: host_def)

lemma proc_host_getfattr: "proc (host df attr st) (getfattr_argv some_file) = attr"
  by (simp add: host_def df_argv_def getfattr_argv_def)

lemma stat_host: "stat (host df attr st) some_file = st"
  by (simp add: host_def)

lemma calls_host: "calls (host df attr st) = []"
  and gettext_host: "gettext (host df attr st) msg = msg"
  by (simp_all add: host_def)

lemma is_basestring_some_file: "is_basestring some_file"
  by (simp add: some_file_def)

lemma get_file_system_host:
  "get_file_system (host (Exited 0 out) attr st) some_file
     = (fs_field out, logged (Exec (df_argv some_file)) (host (Exited 0 out) attr st))"
  by (simp add: get_file_system_def is_basestring_some_file check_output_Exited_0 proc_host_df)

lemma eq_fuseblk: "unicode_eq_str (map of_char ''fuseblk'') ''fuseblk''"
  and eq_vfat: "unicode_eq_str (map of_char ''vfat'') ''vfat''"
  and ne_vfat: "\<not> unicode_eq_str (map of_char ''vfat'') ''fuseblk''"
  and ne_ext4: "\<not> unicode_eq_str (map of_char ''ext4'') ''fuseblk''"
    "\<not> unicode_eq_str (map of_char ''ext4'') ''vfat''"
  by (simp_all add: unicode_eq_str_def)

lemma get_file_system_ext4_host:
  "get_file_system ext4_host some_file
     = (Inr (map of_char ''ext4''), logged (Exec (df_argv some_file)) ext4_host)"
  unfolding ext4_host_def by (simp only: get_file_system_host fs_field_ext4)

lemma get_file_system_ntfs_host:
  "get_file_system ntfs_host some_file
     = (Inr (map of_char ''fuseblk''), logged (Exec (df_argv some_file)) ntfs_host)"
  unfolding ntfs_host_def by (simp only: get_file_system_host fs_field_fuseblk)

lemma get_file_system_vfat_host:
  "get_file_system vfat_host some_file
     = (Inr (map of_char ''vfat''), logged (Exec (df_argv some_file)) vfat_host)"
  unfolding vfat_host_def by (simp only: get_file_system_host fs_field_vfat)

lemma proc_ntfs_host_df: "proc ntfs_host (df_argv some_file) = Exited 0 (df_report ''fuseblk'')"
  by (simp only: ntfs_host_def proc_host_df)

lemma proc_df_fails_host: "proc df_fails_host (df_argv some_file) = Exited 1 []"
  by (simp add: df_fails_host_def proc_host_df)

lemma proc_no_df_host: "proc no_df_host (df_argv some_file) = NotStarted (OSError 2)"
  by (simp add: no_df_host_def proc_host_df)

lemma proc_no_attr_host: "proc no_attr_host (getfattr_argv some_file) = Exited 1 []"
  by (simp add: no_attr_host_def proc_host_getfattr)

lemma proc_no_getfattr_host:
  "proc no_getfattr_host (getfattr_argv some_file) = NotStarted (OSError 2)"
  by (simp add: no_getfattr_host_def proc_host_getfattr)

lemma stat_vfat_host: "stat vfat_host some_file = Inr some_stat"
  by (simp add: vfat_host_def stat_host)

lemma get_file_system_no_attr_host:
  "fst (get_file_system no_attr_host some_file) = Inr (map of_char ''fuseblk'')"
  unfolding no_attr_host_def by (simp only: get_file_system_host fs_field_fuseblk fst_conv)

lemma get_file_system_no_df_host: "fst (get_file_system no_df_host some_file) = Inl (OSError 2)"
  by (simp add: get_file_system_def is_basestring_some_file check_output_NotStarted
      proc_no_df_host)

lemma get_file_system_no_getfattr_host:
  "fst (get_file_system no_getfattr_host some_file) = Inr (map of_char ''fuseblk'')"
  unfolding no_getfattr_host_def by (simp only: get_file_system_host fs_field_fuseblk fst_conv)

lemma get_ntfs_crtime_no_getfattr_host:
  "fst (get_ntfs_crtime no_getfattr_host some_file) = Inl (OSError 2)"
  by (rule get_ntfs_crtime_failure) (simp add: check_output_NotStarted proc_no_getfattr_host)

lemma get_crtime_ntfs_host: "fst (get_crtime ntfs_host some_file) = Inr (PyInt 0)"
proof -
  have "fst (get_crtime ntfs_host some_file) = fst (get_ntfs_crtime ntfs_host some_file)"
    by (rule get_crtime_ntfs [OF _ eq_fuseblk]) (simp only: get_file_system_ntfs_host fst_conv)
  also have "\<dots> = Inr (PyInt 0)"
    using get_ntfs_crtime_raw [OF proc_ntfs_host_getfattr]
    by (simp add: epoch_ticks_def be_uint_def)
  finally show ?thesis .
qed

lemma get_crtime_vfat_host: "fst (get_crtime vfat_host some_file) = Inr (PyFloat 1500000100.5)"
proof -
  have "fst (get_crtime vfat_host some_file) = fst (get_vfat_crtime vfat_host some_file)"
    by (rule get_crtime_vfat [OF _ ne_vfat eq_vfat])
       (simp only: get_file_system_vfat_host fst_conv)
  also have "\<dots> = Inr (PyFloat (st_ctime some_stat))"
    by (simp only: get_vfat_crtime_value [OF stat_vfat_host] fst_conv)
  also have "st_ctime some_stat = 1500000100.5" by (simp add: some_stat_def)
  finally show ?thesis .
qed

lemma argv_path: "PyStr ([''nemo-crtime.py'', ''/mnt/disk/a.txt''] ! 1) = some_file"
  by (simp add: some_file_def)

subsection \<open>Unsupported file systems\<close>

text \<open>
  Claim C2. When classification succeeds with a type string that is neither \<^verbatim>\<open>fuseblk\<close>
  nor \<^verbatim>\<open>vfat\<close>, \<^verbatim>\<open>get_crtime\<close> returns \<^verbatim>\<open>None\<close> and raises nothing, and the only
  query it has made is the \<^verbatim>\<open>df\<close> call of the classifier: neither \<^verbatim>\<open>getfattr\<close> nor
  \<^verbatim>\<open>os.stat\<close> was called.
\<close>

theorem unsupported_filesystem:
  assumes "get_file_system w path = (Inr fs, w1)"
    and "\<not> unicode_eq_str fs ''fuseblk''"
    and "\<not> unicode_eq_str fs ''vfat''"
  shows "get_crtime w path = (Inr PyNone, w1)
         \<and> calls (snd (get_crtime w path)) = calls w @ [Exec (df_argv path)]"
proof -
  have r: "get_crtime w path = (Inr PyNone, w1)"
    using assms by (simp add: get_crtime_def)
  have "w1 = logged (Exec (df_argv path)) w"
    using assms(1) by (rule get_file_system_Inr_world)
  with r show ?thesis by (simp add: calls_logged)
qed

theorem unsupported_filesystem_witness:
  "get_file_system ext4_host some_file
     = (Inr (map of_char ''ext4''), logged (Exec (df_argv some_file)) ext4_host)
   \<and> \<not> unicode_eq_str (map of_char ''ext4'') ''fuseblk''
   \<and> \<not> unicode_eq_str (map of_char ''ext4'') ''vfat''
   \<and> get_crtime ext4_host some_file
       = (Inr PyNone, logged (Exec (df_argv some_file)) ext4_host)
   \<and> calls (snd (get_crtime ext4_host some_file)) = [Exec (df_argv some_file)]"
proof -
  note run = unsupported_filesystem [OF get_file_system_ext4_host ne_ext4]
  have empty: "calls ext4_host = []" by (simp add: ext4_host_def calls_host)
  from run have "calls (snd (get_crtime ext4_host some_file))
      = calls ext4_host @ [Exec (df_argv some_file)]"
    by (rule conjunct2)
  then have log: "calls (snd (get_crtime ext4_host some_file)) = [Exec (df_argv some_file)]"
    by (simp only: empty append_Nil)
  from run have res: "get_crtime ext4_host some_file
       = (Inr PyNone, logged (Exec (df_argv some_file)) ext4_host)"
    by (rule conjunct1)
  from get_file_system_ext4_host ne_ext4 res log show ?thesis by blast
qed

subsection \<open>Dispatch on the type string\<close>

text \<open>
  Claim C3. With the type string \<open>fs\<close> the classifier returned, \<^verbatim>\<open>get_crtime\<close> runs the
  NTFS strategy exactly when \<open>fs\<close> is \<^verbatim>\<open>fuseblk\<close>, the FAT32 strategy exactly when it is
  \<^verbatim>\<open>vfat\<close>, and takes the default (\<^verbatim>\<open>None\<close>, no further query) for every other
  string; the log of queries shows which strategy ran.
\<close>

theorem dispatch_on_type_string:
  assumes "get_file_system w path = (Inr fs, w1)"
  shows "get_crtime w path =
           (if fs = map of_char ''fuseblk'' then get_ntfs_crtime w1 path
            else if fs = map of_char ''vfat'' then get_vfat_crtime w1 path
            else (Inr PyNone, w1))
         \<and> calls (snd (get_crtime w path)) =
             calls w @ Exec (df_argv path)
               # (if fs = map of_char ''fuseblk'' then [Exec (getfattr_argv path)]
                  else if fs = map of_char ''vfat'' then [Stat path]
                  else [])"
proof -
  have w1: "w1 = logged (Exec (df_argv path)) w"
    using assms by (rule get_file_system_Inr_world)
  have r: "get_crtime w path =
           (if fs = map of_char ''fuseblk'' then get_ntfs_crtime w1 path
            else if fs = map of_char ''vfat'' then get_vfat_crtime w1 path
            else (Inr PyNone, w1))"
    using assms by (simp add: get_crtime_def unicode_eq_str_def)
  show ?thesis
    unfolding r
    by (simp add: w1 snd_get_ntfs_crtime snd_get_vfat_crtime calls_logged)
qed

theorem dispatch_on_type_string_witness:
  "get_file_system ntfs_host some_file
     = (Inr (map of_char ''fuseblk''), logged (Exec (df_argv some_file)) ntfs_host)
   \<and> get_crtime ntfs_host some_file
       = get_ntfs_crtime (logged (Exec (df_argv some_file)) ntfs_host) some_file
   \<and> calls (snd (get_crtime ntfs_host some_file))
       = [Exec (df_argv some_file), Exec (getfattr_argv some_file)]
   \<and> get_file_system vfat_host some_file
       = (Inr (map of_char ''vfat''), logged (Exec (df_argv some_file)) vfat_host)
   \<and> get_crtime vfat_host some_file
       = get_vfat_crtime (logged (Exec (df_argv some_file)) vfat_host) some_file
   \<and> calls (snd (get_crtime vfat_host some_file))
       = [Exec (df_argv some_file), Stat some_file]"
proof -
  note ntfs = dispatch_on_type_string [OF get_file_system_ntfs_host]
  note vfat = dispatch_on_type_string [OF get_file_system_vfat_host]
  have empty: "calls ntfs_host = []" "calls vfat_host = []"
    by (simp_all add: ntfs_host_def vfat_host_def calls_host)
  from ntfs [THEN conjunct1] have n1: "get_crtime ntfs_host some_file
       = get_ntfs_crtime (logged (Exec (df_argv some_file)) ntfs_host) some_file"
    by simp
  from ntfs [THEN conjunct2] empty have n2: "calls (snd (get_crtime ntfs_host some_file))
       = [Exec (df_argv some_file), Exec (getfattr_argv some_file)]"
    by simp
  from vfat [THEN conjunct1] have v1: "get_crtime vfat_host some_file
       = get_vfat_crtime (logged (Exec (df_argv some_file)) vfat_host) some_file"
    by simp
  from vfat [THEN conjunct2] empty have v2: "calls (snd (get_crtime vfat_host some_file))
       = [Exec (df_argv some_file), Stat some_file]"
    by simp
  from get_file_system_ntfs_host get_file_system_vfat_host n1 n2 v1 v2 show ?thesis
    by blast
qed

subsection \<open>Failure of the mount-table query\<close>

text \<open>
  Claim C4, as the program has it. If the \<^verbatim>\<open>df\<close> query fails, because the command
  could not be started or because it exited with a status other than 0, then
  \<^verbatim>\<open>get_file_system\<close> raises the exception of the library for that failure, unchanged
  (for a non-zero exit it carries the status, the command line and the output); it returns
  no type string at all, and \<^verbatim>\<open>get_crtime\<close> raises the same exception. The exception
  is not of a kind reserved for classification.
\<close>

theorem classify_failure_propagates:
  assumes "is_basestring path"
    and "proc w (df_argv path) = NotStarted e
         \<or> (\<exists>rc out. proc w (df_argv path) = Exited rc out \<and> rc \<noteq> 0
                       \<and> e = CalledProcessError rc (df_argv path) out)"
  shows "fst (get_file_system w path) = Inl e
         \<and> (\<forall>fs. fst (get_file_system w path) \<noteq> Inr fs)
         \<and> fst (get_crtime w path) = Inl e"
proof -
  have "fst (check_output w (df_argv path)) = Inl e"
    using check_output_failure [OF assms(2)] by simp
  with assms(1) have r: "fst (get_file_system w path) = Inl e"
    by (rule get_file_system_failure)
  then show ?thesis by (simp add: get_crtime_classify_failure)
qed

theorem classify_failure_propagates_witness:
  "is_basestring some_file
   \<and> proc df_fails_host (df_argv some_file) = Exited 1 []
   \<and> fst (get_file_system df_fails_host some_file)
       = Inl (CalledProcessError 1 (df_argv some_file) [])
   \<and> fst (get_crtime df_fails_host some_file)
       = Inl (CalledProcessError 1 (df_argv some_file) [])"
proof -
  have hyp: "proc df_fails_host (df_argv some_file)
               = NotStarted (CalledProcessError 1 (df_argv some_file) [])
             \<or> (\<exists>rc out. proc df_fails_host (df_argv some_file) = Exited rc out \<and> rc \<noteq> 0
                   \<and> CalledProcessError 1 (df_argv some_file) []
                       = CalledProcessError rc (df_argv some_file) out)"
    by (simp add: proc_df_fails_host)
  from classify_failure_propagates [OF is_basestring_some_file hyp]
    is_basestring_some_file proc_df_fails_host
  show ?thesis by blast
qed

text \<open>
  Claim C4 as stated, that the failure is an error of a kind of its own for classification,
  fails: on a system without \<^verbatim>\<open>df\<close> the classifier raises \<^verbatim>\<open>OSError\<close> with errno 2,
  and that very exception is what the NTFS strategy raises on a system without
  \<^verbatim>\<open>getfattr\<close>.
\<close>

theorem classification_error_untyped_counterexample:
  "proc no_df_host (df_argv some_file) = NotStarted (OSError 2)
   \<and> fst (get_file_system no_df_host some_file) = Inl (OSError 2)
   \<and> proc no_getfattr_host (getfattr_argv some_file) = NotStarted (OSError 2)
   \<and> fst (get_ntfs_crtime no_getfattr_host some_file) = Inl (OSError 2)"
  using proc_no_df_host get_file_system_no_df_host proc_no_getfattr_host
    get_ntfs_crtime_no_getfattr_host
  by blast

subsection \<open>A missing or unreadable attribute\<close>

text \<open>
  Claim C5, as the program has it. If the creation-time attribute cannot be read, because
  \<^verbatim>\<open>getfattr\<close> could not be started, exited with a status other than 0, or delivered
  something that is not 8 bytes long, then \<^verbatim>\<open>get_ntfs_crtime\<close> raises the exception of
  the library for that failure and returns no value (no zero, no \<^verbatim>\<open>None\<close>, no made-up
  instant); so does \<^verbatim>\<open>get_crtime\<close> on a path classified as \<^verbatim>\<open>fuseblk\<close>. The
  exception is not of a kind reserved for the attribute read.
\<close>

theorem missing_attribute_is_error:
  assumes "proc w (getfattr_argv path) = NotStarted e
         \<or> (\<exists>rc out. proc w (getfattr_argv path) = Exited rc out \<and> rc \<noteq> 0
                       \<and> e = CalledProcessError rc (getfattr_argv path) out)
         \<or> (\<exists>out. proc w (getfattr_argv path) = Exited 0 out \<and> length out \<noteq> 8
                       \<and> e = struct_error)"
  shows "fst (get_ntfs_crtime w path) = Inl e
         \<and> (\<forall>v. fst (get_ntfs_crtime w path) \<noteq> Inr v)
         \<and> (\<forall>fs. fst (get_file_system w path) = Inr fs \<and> unicode_eq_str fs ''fuseblk''
                \<longrightarrow> fst (get_crtime w path) = Inl e)"
proof -
  have r: "fst (get_ntfs_crtime w path) = Inl e"
    using assms
  proof (elim disjE exE conjE)
    assume "proc w (getfattr_argv path) = NotStarted e"
    then have "fst (check_output w (getfattr_argv path)) = Inl e"
      by (simp add: check_output_NotStarted)
    then show ?thesis by (rule get_ntfs_crtime_failure)
  next
    fix rc out
    assume "proc w (getfattr_argv path) = Exited rc out" "rc \<noteq> 0"
      and e: "e = CalledProcessError rc (getfattr_argv path) out"
    then have "fst (check_output w (getfattr_argv path)) = Inl e"
      by (simp add: check_output_nonzero)
    then show ?thesis by (rule get_ntfs_crtime_failure)
  next
    fix out
    assume "proc w (getfattr_argv path) = Exited 0 out" "length out \<noteq> 8" "e = struct_error"
    then show ?thesis by (simp add: get_ntfs_crtime_malformed)
  qed
  then show ?thesis by (auto simp: get_crtime_ntfs)
qed

theorem missing_attribute_is_error_witness:
  "proc no_attr_host (getfattr_argv some_file) = Exited 1 []
   \<and> fst (get_file_system no_attr_host some_file) = Inr (map of_char ''fuseblk'')
   \<and> unicode_eq_str (map of_char ''fuseblk'') ''fuseblk''
   \<and> fst (get_ntfs_crtime no_attr_host some_file)
       = Inl (CalledProcessError 1 (getfattr_argv some_file) [])
   \<and> fst (get_crtime no_attr_host some_file)
       = Inl (CalledProcessError 1 (getfattr_argv some_file) [])"
proof -
  have hyp: "proc no_attr_host (getfattr_argv some_file)
               = NotStarted (CalledProcessError 1 (getfattr_argv some_file) [])
         \<or> (\<exists>rc out. proc no_attr_host (getfattr_argv some_file) = Exited rc out \<and> rc \<noteq> 0
               \<and> CalledProcessError 1 (getfattr_argv some_file) []
                   = CalledProcessError rc (getfattr_argv some_file) out)
         \<or> (\<exists>out. proc no_attr_host (getfattr_argv some_file) = Exited 0 out
               \<and> length out \<noteq> 8
               \<and> CalledProcessError 1 (getfattr_argv some_file) [] = struct_error)"
    by (simp add: proc_no_attr_host)
  from missing_attribute_is_error [OF hyp] proc_no_attr_host get_file_system_no_attr_host
    eq_fuseblk
  show ?thesis by blast
qed

text \<open>
  Claim C5 as stated, that the failure is an error of a kind of its own for the attribute
  read, fails: on an NTFS mount of a system without \<^verbatim>\<open>getfattr\<close> the strategy raises
  \<^verbatim>\<open>OSError\<close> with errno 2, and the caller of \<^verbatim>\<open>get_crtime\<close> receives that same
  exception when it is classification that failed, on a system without \<^verbatim>\<open>df\<close>.
\<close>

theorem attribute_error_untyped_counterexample:
  "fst (get_file_system no_getfattr_host some_file) = Inr (map of_char ''fuseblk'')
   \<and> fst (get_ntfs_crtime no_getfattr_host some_file) = Inl (OSError 2)
   \<and> fst (get_crtime no_getfattr_host some_file) = Inl (OSError 2)
   \<and> fst (get_crtime no_df_host some_file) = Inl (OSError 2)"
proof -
  have a: "fst (get_crtime no_df_host some_file) = Inl (OSError 2)"
    using get_file_system_no_df_host by (rule get_crtime_classify_failure)
  have "fst (get_crtime no_getfattr_host some_file)
          = fst (get_ntfs_crtime no_getfattr_host some_file)"
    using get_file_system_no_getfattr_host eq_fuseblk by (rule get_crtime_ntfs)
  then have b: "fst (get_crtime no_getfattr_host some_file) = Inl (OSError 2)"
    by (simp only: get_ntfs_crtime_no_getfattr_host)
  from a b get_file_system_no_getfattr_host get_ntfs_crtime_no_getfattr_host
  show ?thesis by blast
qed

subsection \<open>The FAT32 strategy\<close>

text \<open>
  Claim C6. When \<^verbatim>\<open>os.stat\<close> answers for the path, \<^verbatim>\<open>get_vfat_crtime\<close> returns
  exactly the \<^verbatim>\<open>st_ctime\<close> field of that answer, unchanged, having made that one
  \<^verbatim>\<open>os.stat\<close> call; and so does \<^verbatim>\<open>get_crtime\<close> for a path classified as \<^verbatim>\<open>vfat\<close>.
\<close>

theorem vfat_crtime_passthrough:
  assumes "stat w path = Inr st"
  shows "fst (get_vfat_crtime w path) = Inr (PyFloat (st_ctime st))
         \<and> calls (snd (get_vfat_crtime w path)) = calls w @ [Stat path]
         \<and> (\<forall>fs. fst (get_file_system w path) = Inr fs \<and> unicode_eq_str fs ''vfat''
                \<longrightarrow> fst (get_crtime w path) = Inr (PyFloat (st_ctime st)))"
  using get_vfat_crtime_value [OF assms]
  by (auto simp: calls_logged get_crtime_vfat vfat_not_fuseblk)

theorem vfat_crtime_passthrough_witness:
  "stat vfat_host some_file = Inr some_stat
   \<and> fst (get_file_system vfat_host some_file) = Inr (map of_char ''vfat'')
   \<and> unicode_eq_str (map of_char ''vfat'') ''vfat''
   \<and> fst (get_vfat_crtime vfat_host some_file) = Inr (PyFloat 1500000100.5)
   \<and> fst (get_crtime vfat_host some_file) = Inr (PyFloat 1500000100.5)"
proof -
  note run = vfat_crtime_passthrough [OF stat_vfat_host]
  have c: "st_ctime some_stat = 1500000100.5" by (simp add: some_stat_def)
  have fs: "fst (get_file_system vfat_host some_file) = Inr (map of_char ''vfat'')"
    by (simp only: get_file_system_vfat_host fst_conv)
  from run have a: "fst (get_vfat_crtime vfat_host some_file) = Inr (PyFloat 1500000100.5)"
    by (simp only: c)
  from run fs eq_vfat
  have "fst (get_crtime vfat_host some_file) = Inr (PyFloat (st_ctime some_stat))"
    by blast
  then have b: "fst (get_crtime vfat_host some_file) = Inr (PyFloat 1500000100.5)"
    by (simp only: c)
  from stat_vfat_host fs eq_vfat a b show ?thesis by blast
qed

subsection \<open>Propagation of failures\<close>

text \<open>
  Claim C7, as the program has it. Nothing is caught and nothing is substituted: an
  exception of the classifier, of the selected strategy, or of the library call under
  either (\<^verbatim>\<open>check_output\<close>, \<^verbatim>\<open>os.stat\<close>) reaches the caller of \<^verbatim>\<open>get_crtime\<close>
  unchanged, and \<^verbatim>\<open>None\<close> is returned exactly when classification succeeded with a type
  string that is neither \<^verbatim>\<open>fuseblk\<close> nor \<^verbatim>\<open>vfat\<close>, so it never stands for a failure.
  The same holds for what the program computes on the answers (decoding and indexing
  the \<^verbatim>\<open>df\<close> output, unpacking the attribute). The exception is the one the library
  raised; it is not typed by the stage it came from.
\<close>

theorem failures_propagate_unchanged:
  "(fst (get_file_system w path) = Inl e \<longrightarrow> fst (get_crtime w path) = Inl e)
   \<and> (fst (get_file_system w path) = Inr fs \<and> unicode_eq_str fs ''fuseblk''
        \<and> fst (get_ntfs_crtime w path) = Inl e \<longrightarrow> fst (get_crtime w path) = Inl e)
   \<and> (fst (get_file_system w path) = Inr fs \<and> unicode_eq_str fs ''vfat''
        \<and> fst (get_vfat_crtime w path) = Inl e \<longrightarrow> fst (get_crtime w path) = Inl e)
   \<and> (is_basestring path \<and> fst (check_output w (df_argv path)) = Inl e
        \<longrightarrow> fst (get_file_system w path) = Inl e)
   \<and> (fst (check_output w (getfattr_argv path)) = Inl e
        \<longrightarrow> fst (get_ntfs_crtime w path) = Inl e)
   \<and> (stat w path = Inl e \<longrightarrow> fst (get_vfat_crtime w path) = Inl e)
   \<and> (is_basestring path \<and> fst (check_output w (df_argv path)) = Inr out
        \<and> fs_field out = Inl e \<longrightarrow> fst (get_file_system w path) = Inl e)
   \<and> (fst (check_output w (getfattr_argv path)) = Inr raw \<and> struct_unpack_Q raw = Inl e
        \<longrightarrow> fst (get_ntfs_crtime w path) = Inl e)
   \<and> (fst (get_crtime w path) = Inr PyNone \<longleftrightarrow>
        (\<exists>fs. fst (get_file_system w path) = Inr fs
              \<and> \<not> unicode_eq_str fs ''fuseblk'' \<and> \<not> unicode_eq_str fs ''vfat''))"
proof (intro conjI impI)
  show "fst (get_crtime w path) = Inl e" if "fst (get_file_system w path) = Inl e"
    using that by (rule get_crtime_classify_failure)
  show "fst (get_crtime w path) = Inl e"
    if "fst (get_file_system w path) = Inr fs \<and> unicode_eq_str fs ''fuseblk''
        \<and> fst (get_ntfs_crtime w path) = Inl e"
    using that get_crtime_ntfs [of w path fs] by simp
  show "fst (get_crtime w path) = Inl e"
    if "fst (get_file_system w path) = Inr fs \<and> unicode_eq_str fs ''vfat''
        \<and> fst (get_vfat_crtime w path) = Inl e"
    using that get_crtime_vfat [of w path fs] vfat_not_fuseblk [of fs] by simp
  show "fst (get_file_system w path) = Inl e"
    if "is_basestring path \<and> fst (check_output w (df_argv path)) = Inl e"
    using that get_file_system_failure [of path w e] by simp
  show "fst (get_ntfs_crtime w path) = Inl e"
    if "fst (check_output w (getfattr_argv path)) = Inl e"
    using that by (rule get_ntfs_crtime_failure)
  show "fst (get_vfat_crtime w path) = Inl e" if "stat w path = Inl e"
    using that by (rule get_vfat_crtime_failure)
  show "fst (get_file_system w path) = Inl e"
    if "is_basestring path \<and> fst (check_output w (df_argv path)) = Inr out
        \<and> fs_field out = Inl e"
    using that
    by (cases "check_output w (df_argv path)") (auto simp: get_file_system_def)
  show "fst (get_ntfs_crtime w path) = Inl e"
    if "fst (check_output w (getfattr_argv path)) = Inr raw \<and> struct_unpack_Q raw = Inl e"
    using that
    by (cases "check_output w (getfattr_argv path)") (auto simp: get_ntfs_crtime_def)
  show "fst (get_crtime w path) = Inr PyNone \<longleftrightarrow>
        (\<exists>fs. fst (get_file_system w path) = Inr fs
              \<and> \<not> unicode_eq_str fs ''fuseblk'' \<and> \<not> unicode_eq_str fs ''vfat'')"
    by (rule get_crtime_None_iff)
qed

theorem failures_propagate_unchanged_witness:
  "fst (get_file_system no_df_host some_file) = Inl (OSError 2)
   \<and> fst (get_crtime no_df_host some_file) = Inl (OSError 2)
   \<and> fst (get_file_system no_getfattr_host some_file) = Inr (map of_char ''fuseblk'')
   \<and> unicode_eq_str (map of_char ''fuseblk'') ''fuseblk''
   \<and> fst (get_ntfs_crtime no_getfattr_host some_file) = Inl (OSError 2)
   \<and> fst (get_crtime no_getfattr_host some_file) = Inl (OSError 2)"
proof -
  from failures_propagate_unchanged [of no_df_host some_file "OSError 2"]
    get_file_system_no_df_host
  have a: "fst (get_crtime no_df_host some_file) = Inl (OSError 2)" by blast
  from failures_propagate_unchanged
         [of no_getfattr_host some_file "OSError 2" "map of_char ''fuseblk''"]
    get_file_system_no_getfattr_host eq_fuseblk get_ntfs_crtime_no_getfattr_host
  have b: "fst (get_crtime no_getfattr_host some_file) = Inl (OSError 2)" by blast
  from a b get_file_system_no_df_host get_file_system_no_getfattr_host eq_fuseblk
    get_ntfs_crtime_no_getfattr_host
  show ?thesis by blast
qed

text \<open>
  Claim C7 as stated, that the outcome is distinct per kind of error, fails: on a system
  without \<^verbatim>\<open>df\<close> classification fails, on an NTFS mount of a system without
  \<^verbatim>\<open>getfattr\<close> the attribute read fails, and \<^verbatim>\<open>get_crtime\<close> gives its caller the same
  exception in both cases.
\<close>

theorem error_kinds_not_distinct_counterexample:
  "fst (get_file_system no_df_host some_file) = Inl (OSError 2)
   \<and> fst (get_file_system no_getfattr_host some_file) = Inr (map of_char ''fuseblk'')
   \<and> fst (get_ntfs_crtime no_getfattr_host some_file) = Inl (OSError 2)
   \<and> fst (get_crtime no_df_host some_file) = fst (get_crtime no_getfattr_host some_file)"
proof -
  have a: "fst (get_crtime no_df_host some_file) = Inl (OSError 2)"
    using get_file_system_no_df_host by (rule get_crtime_classify_failure)
  have "fst (get_crtime no_getfattr_host some_file)
          = fst (get_ntfs_crtime no_getfattr_host some_file)"
    using get_file_system_no_getfattr_host eq_fuseblk by (rule get_crtime_ntfs)
  then have b: "fst (get_crtime no_getfattr_host some_file) = Inl (OSError 2)"
    by (simp only: get_ntfs_crtime_no_getfattr_host)
  from a b have "fst (get_crtime no_df_host some_file)
      = fst (get_crtime no_getfattr_host some_file)" by simp
  with get_file_system_no_df_host get_file_system_no_getfattr_host
    get_ntfs_crtime_no_getfattr_host
  show ?thesis by blast
qed

subsection \<open>Determinism\<close>

text \<open>
  Claim C8. What \<^verbatim>\<open>get_file_system\<close> and \<^verbatim>\<open>get_crtime\<close> return for a path is a
  function of what the system answers to the \<^verbatim>\<open>df\<close> query, the \<^verbatim>\<open>getfattr\<close> query and
  \<^verbatim>\<open>os.stat\<close> for that path: two systems that agree on these three answers give the
  same results, and since a call changes none of them, a second call right after the first
  returns what the first returned.
\<close>

theorem reads_are_deterministic:
  assumes "proc w2 (df_argv path) = proc w1 (df_argv path)"
    and "proc w2 (getfattr_argv path) = proc w1 (getfattr_argv path)"
    and "stat w2 path = stat w1 path"
  shows "fst (get_file_system w2 path) = fst (get_file_system w1 path)
         \<and> fst (get_crtime w2 path) = fst (get_crtime w1 path)
         \<and> fst (get_file_system (snd (get_file_system w1 path)) path)
             = fst (get_file_system w1 path)
         \<and> fst (get_crtime (snd (get_crtime w1 path)) path) = fst (get_crtime w1 path)"
proof -
  have crtime: "fst (get_crtime a path) = fst (get_crtime b path)"
    if df: "proc a (df_argv path) = proc b (df_argv path)"
      and attr: "proc a (getfattr_argv path) = proc b (getfattr_argv path)"
      and st: "stat a path = stat b path" for a b
  proof -
    have fs: "fst (get_file_system a path) = fst (get_file_system b path)"
      using df by (rule fst_get_file_system_cong)
    have n: "fst (get_ntfs_crtime (snd (get_file_system a path)) path)
             = fst (get_ntfs_crtime (snd (get_file_system b path)) path)"
      by (rule fst_get_ntfs_crtime_cong) (simp add: get_file_system_frame attr)
    have v: "fst (get_vfat_crtime (snd (get_file_system a path)) path)
             = fst (get_vfat_crtime (snd (get_file_system b path)) path)"
      by (rule fst_get_vfat_crtime_cong) (simp add: get_file_system_frame st)
    show ?thesis
      by (cases "fst (get_file_system b path)") (simp_all add: get_crtime_unfold fs n v)
  qed
  have "fst (get_file_system w2 path) = fst (get_file_system w1 path)"
    using assms(1) by (rule fst_get_file_system_cong)
  moreover have "fst (get_crtime w2 path) = fst (get_crtime w1 path)"
    using assms by (rule crtime)
  moreover have "fst (get_file_system (snd (get_file_system w1 path)) path)
             = fst (get_file_system w1 path)"
    by (rule fst_get_file_system_cong) (simp add: get_file_system_frame)
  moreover have "fst (get_crtime (snd (get_crtime w1 path)) path) = fst (get_crtime w1 path)"
    by (rule crtime) (simp_all add: get_crtime_frame)
  ultimately show ?thesis by simp
qed

theorem reads_are_deterministic_witness:
  "proc (logged (Stat some_file) ntfs_host) (df_argv some_file)
     = proc ntfs_host (df_argv some_file)
   \<and> proc (logged (Stat some_file) ntfs_host) (getfattr_argv some_file)
       = proc ntfs_host (getfattr_argv some_file)
   \<and> stat (logged (Stat some_file) ntfs_host) some_file = stat ntfs_host some_file
   \<and> fst (get_file_system (logged (Stat some_file) ntfs_host) some_file)
       = Inr (map of_char ''fuseblk'')
   \<and> fst (get_crtime (logged (Stat some_file) ntfs_host) some_file) = Inr (PyInt 0)
   \<and> fst (get_file_system (snd (get_file_system ntfs_host some_file)) some_file)
       = Inr (map of_char ''fuseblk'')
   \<and> fst (get_crtime (snd (get_crtime ntfs_host some_file)) some_file) = Inr (PyInt 0)"
proof -
  have h1: "proc (logged (Stat some_file) ntfs_host) (df_argv some_file)
     = proc ntfs_host (df_argv some_file)"
    by (simp only: proc_logged)
  have h2: "proc (logged (Stat some_file) ntfs_host) (getfattr_argv some_file)
       = proc ntfs_host (getfattr_argv some_file)"
    by (simp only: proc_logged)
  have h3: "stat (logged (Stat some_file) ntfs_host) some_file = stat ntfs_host some_file"
    by (simp only: stat_logged)
  have fs: "fst (get_file_system ntfs_host some_file) = Inr (map of_char ''fuseblk'')"
    by (simp only: get_file_system_ntfs_host fst_conv)
  note run = reads_are_deterministic [OF h1 h2 h3]
  from run have "fst (get_file_system (logged (Stat some_file) ntfs_host) some_file)
       = Inr (map of_char ''fuseblk'')
   \<and> fst (get_crtime (logged (Stat some_file) ntfs_host) some_file) = Inr (PyInt 0)
   \<and> fst (get_file_system (snd (get_file_system ntfs_host some_file)) some_file)
       = Inr (map of_char ''fuseblk'')
   \<and> fst (get_crtime (snd (get_crtime ntfs_host some_file)) some_file) = Inr (PyInt 0)"
    by (simp only: fs get_crtime_ntfs_host)
  with h1 h2 h3 show ?thesis by blast
qed

subsection \<open>The interactive caller and the Unix epoch\<close>

text \<open>
  Claim C9. The interactive caller runs \<^verbatim>\<open>get_crtime\<close> on its first argument and tells
  the unsupported outcome from success by \<^verbatim>\<open>not crtime\<close> alone: an exception of
  \<^verbatim>\<open>get_crtime\<close> is passed on, a result that is true is printed through
  \<^verbatim>\<open>time.ctime\<close> and nothing is raised, and a result that is false makes it raise
  \<^verbatim>\<open>RuntimeError("Unsupported filesystem")\<close> and print nothing. The integer 0 and the
  float 0.0 are false, as \<^verbatim>\<open>None\<close> is, so a creation instant at the Unix epoch is
  reported as an unsupported file system instead of being printed. Without an argument the
  caller prints the usage message and exits with status 1.
\<close>

theorem caller_tests_truthiness:
  "(length argv < 2 \<longrightarrow>
      main w argv =
        \<lparr>stdout = [Message (gettext w ''ERROR: need one command line argument: filename'')],
         raised = Some (SystemExit 1), after = w\<rparr>)
   \<and> (2 \<le> length argv \<longrightarrow> after (main w argv) = snd (get_crtime w (PyStr (argv ! 1))))
   \<and> (2 \<le> length argv \<and> fst (get_crtime w (PyStr (argv ! 1))) = Inl e \<longrightarrow>
        raised (main w argv) = Some e \<and> stdout (main w argv) = [])
   \<and> (2 \<le> length argv \<and> fst (get_crtime w (PyStr (argv ! 1))) = Inr crtime
        \<and> truthy crtime \<longrightarrow>
        raised (main w argv) = None \<and> stdout (main w argv) = [Ctime crtime])
   \<and> (2 \<le> length argv \<and> fst (get_crtime w (PyStr (argv ! 1))) = Inr crtime
        \<and> \<not> truthy crtime \<longrightarrow>
        raised (main w argv) = Some (RuntimeError (gettext w ''Unsupported filesystem''))
        \<and> stdout (main w argv) = [])
   \<and> (2 \<le> length argv \<and> fst (get_crtime w (PyStr (argv ! 1))) = Inr crtime
        \<and> (crtime = PyInt 0 \<or> crtime = PyFloat 0) \<longrightarrow>
        raised (main w argv) = Some (RuntimeError (gettext w ''Unsupported filesystem''))
        \<and> stdout (main w argv) = [])
   \<and> (truthy (PyInt n) \<longleftrightarrow> n \<noteq> 0) \<and> (truthy (PyFloat x) \<longleftrightarrow> x \<noteq> 0) \<and> \<not> truthy PyNone"
proof -
  obtain r w1 where run: "get_crtime w (PyStr (argv ! 1)) = (r, w1)"
    by (cases "get_crtime w (PyStr (argv ! 1))")
  have "w1 = snd (get_crtime w (PyStr (argv ! 1)))" using run by simp
  then have g: "gettext w1 = gettext w" by (simp add: get_crtime_frame)
  have usage: "length argv < 2 \<longrightarrow>
      main w argv =
        \<lparr>stdout = [Message (gettext w ''ERROR: need one command line argument: filename'')],
         raised = Some (SystemExit 1), after = w\<rparr>"
    by (simp add: main_def)
  have world: "2 \<le> length argv \<longrightarrow> after (main w argv) = snd (get_crtime w (PyStr (argv ! 1)))"
    using run by (cases r) (simp_all add: main_def)
  have err: "2 \<le> length argv \<and> fst (get_crtime w (PyStr (argv ! 1))) = Inl e \<longrightarrow>
        raised (main w argv) = Some e \<and> stdout (main w argv) = []"
    using run by (simp add: main_def)
  have printed: "2 \<le> length argv \<and> fst (get_crtime w (PyStr (argv ! 1))) = Inr crtime
        \<and> truthy crtime \<longrightarrow>
        raised (main w argv) = None \<and> stdout (main w argv) = [Ctime crtime]"
    using run by (simp add: main_def)
  have falsy: "2 \<le> length argv \<and> fst (get_crtime w (PyStr (argv ! 1))) = Inr crtime
        \<and> \<not> truthy crtime \<longrightarrow>
        raised (main w argv) = Some (RuntimeError (gettext w ''Unsupported filesystem''))
        \<and> stdout (main w argv) = []"
    using run g by (simp add: main_def)
  have zero: "2 \<le> length argv \<and> fst (get_crtime w (PyStr (argv ! 1))) = Inr crtime
        \<and> (crtime = PyInt 0 \<or> crtime = PyFloat 0) \<longrightarrow>
        raised (main w argv) = Some (RuntimeError (gettext w ''Unsupported filesystem''))
        \<and> stdout (main w argv) = []"
    using falsy by auto
  have t: "(truthy (PyInt n) \<longleftrightarrow> n \<noteq> 0) \<and> (truthy (PyFloat x) \<longleftrightarrow> x \<noteq> 0) \<and> \<not> truthy PyNone"
    by simp
  from usage world err printed falsy zero t show ?thesis by blast
qed

theorem caller_tests_truthiness_witness:
  "2 \<le> length [''nemo-crtime.py'', ''/mnt/disk/a.txt'']
   \<and> fst (get_crtime ntfs_host (PyStr ([''nemo-crtime.py'', ''/mnt/disk/a.txt''] ! 1)))
       = Inr (PyInt 0)
   \<and> raised (main ntfs_host [''nemo-crtime.py'', ''/mnt/disk/a.txt''])
       = Some (RuntimeError ''Unsupported filesystem'')
   \<and> stdout (main ntfs_host [''nemo-crtime.py'', ''/mnt/disk/a.txt'']) = []
   \<and> fst (get_crtime vfat_host (PyStr ([''nemo-crtime.py'', ''/mnt/disk/a.txt''] ! 1)))
       = Inr (PyFloat 1500000100.5)
   \<and> truthy (PyFloat 1500000100.5)
   \<and> raised (main vfat_host [''nemo-crtime.py'', ''/mnt/disk/a.txt'']) = None
   \<and> stdout (main vfat_host [''nemo-crtime.py'', ''/mnt/disk/a.txt''])
       = [Ctime (PyFloat 1500000100.5)]
   \<and> length [''nemo-crtime.py''] < 2
   \<and> raised (main ntfs_host [''nemo-crtime.py'']) = Some (SystemExit 1)"
proof -
  let ?argv = "[''nemo-crtime.py'', ''/mnt/disk/a.txt'']"
  have len: "2 \<le> length ?argv" by simp
  have res: "fst (get_crtime ntfs_host (PyStr (?argv ! 1))) = Inr (PyInt 0)"
    by (simp only: argv_path get_crtime_ntfs_host)
  have res': "fst (get_crtime vfat_host (PyStr (?argv ! 1))) = Inr (PyFloat 1500000100.5)"
    by (simp only: argv_path get_crtime_vfat_host)
  have zero: "PyInt 0 = PyInt 0 \<or> PyInt 0 = PyFloat 0" by simp
  have tr: "truthy (PyFloat 1500000100.5)" by simp
  have short: "length [''nemo-crtime.py''] < 2" by simp
  have msg: "gettext ntfs_host ''Unsupported filesystem'' = ''Unsupported filesystem''"
    by (simp only: ntfs_host_def gettext_host)
  from caller_tests_truthiness [of ?argv ntfs_host "OSError 2" "PyInt 0"] len res zero
  have "raised (main ntfs_host ?argv)
          = Some (RuntimeError (gettext ntfs_host ''Unsupported filesystem''))
        \<and> stdout (main ntfs_host ?argv) = []"
    by blast
  then have a: "raised (main ntfs_host ?argv) = Some (RuntimeError ''Unsupported filesystem'')
        \<and> stdout (main ntfs_host ?argv) = []"
    by (simp only: msg)
  from caller_tests_truthiness [of ?argv vfat_host "OSError 2" "PyFloat 1500000100.5"]
    len res' tr
  have b: "raised (main vfat_host ?argv) = None
        \<and> stdout (main vfat_host ?argv) = [Ctime (PyFloat 1500000100.5)]"
    by blast
  from caller_tests_truthiness [of "[''nemo-crtime.py'']" ntfs_host] short
  have "main ntfs_host [''nemo-crtime.py''] =
        \<lparr>stdout = [Message (gettext ntfs_host
                     ''ERROR: need one command line argument: filename'')],
         raised = Some (SystemExit 1), after = ntfs_host\<rparr>"
    by blast
  then have c: "raised (main ntfs_host [''nemo-crtime.py'']) = Some (SystemExit 1)"
    by simp
  from len res a res' tr b short c show ?thesis by blast
qed

subsection \<open>What the classifier returns\<close>

text \<open>
  Claim C10. For an argument that is not a string \<^verbatim>\<open>get_file_system\<close> raises
  \<^verbatim>\<open>AssertionError\<close> and queries nothing. For a string, when \<^verbatim>\<open>df\<close> exits with status
  0, it returns a value exactly when the output decodes, has a last line and that line has
  at least two fields separated by white space; the value is then the second such field,
  which is not empty and contains no white space.
\<close>

theorem classify_returns_second_field:
  "(\<not> is_basestring path \<longrightarrow>
      get_file_system w path = (Inl (AssertionError ''Bad object type given for path''), w))
   \<and> (is_basestring path \<and> proc w (df_argv path) = Exited 0 out \<longrightarrow>
        (fst (get_file_system w path) = Inr fs \<longleftrightarrow>
           (\<exists>text. decode_utf8 out = Inr text \<and> splitlines text \<noteq> []
                  \<and> 2 \<le> length (py_split (last (splitlines text)))
                  \<and> fs = py_split (last (splitlines text)) ! 1))
        \<and> (fst (get_file_system w path) = Inr fs \<longrightarrow>
              fs \<noteq> [] \<and> (\<forall>c \<in> set fs. \<not> is_space c)))"
proof (intro conjI impI)
  assume "\<not> is_basestring path"
  then show "get_file_system w path
      = (Inl (AssertionError ''Bad object type given for path''), w)"
    by (simp add: get_file_system_def)
next
  assume a: "is_basestring path \<and> proc w (df_argv path) = Exited 0 out"
  then have run: "fst (get_file_system w path) = fs_field out"
    by (simp add: get_file_system_def check_output_Exited_0)
  show "fst (get_file_system w path) = Inr fs \<longleftrightarrow>
           (\<exists>text. decode_utf8 out = Inr text \<and> splitlines text \<noteq> []
                  \<and> 2 \<le> length (py_split (last (splitlines text)))
                  \<and> fs = py_split (last (splitlines text)) ! 1)"
    unfolding run by (rule fs_field_Inr_iff)
  show "fs \<noteq> []" if "fst (get_file_system w path) = Inr fs"
    using that fs_field_nonempty [of out fs] by (simp add: run)
  show "\<forall>c \<in> set fs. \<not> is_space c" if "fst (get_file_system w path) = Inr fs"
    using that fs_field_nonempty [of out fs] by (simp add: run)
qed

theorem classify_returns_second_field_witness:
  "\<not> is_basestring (PyInt 5)
   \<and> get_file_system ntfs_host (PyInt 5)
       = (Inl (AssertionError ''Bad object type given for path''), ntfs_host)
   \<and> is_basestring some_file
   \<and> proc ntfs_host (df_argv some_file) = Exited 0 (df_report ''fuseblk'')
   \<and> fst (get_file_system ntfs_host some_file) = Inr (map of_char ''fuseblk'')
   \<and> (map of_char ''fuseblk'' :: unicode) \<noteq> []
   \<and> list_all (\<lambda>c. \<not> is_space c) (map of_char ''fuseblk'' :: unicode)"
proof -
  have n: "\<not> is_basestring (PyInt 5)" by simp
  have fs: "fst (get_file_system ntfs_host some_file) = Inr (map of_char ''fuseblk'')"
    by (simp only: get_file_system_ntfs_host fst_conv)
  from classify_returns_second_field [of "PyInt 5" ntfs_host] n
  have a: "get_file_system ntfs_host (PyInt 5)
       = (Inl (AssertionError ''Bad object type given for path''), ntfs_host)"
    by blast
  from classify_returns_second_field
         [of some_file ntfs_host "df_report ''fuseblk''" "map of_char ''fuseblk''"]
    is_basestring_some_file proc_ntfs_host_df fs
  have "(map of_char ''fuseblk'' :: unicode) \<noteq> []
   \<and> (\<forall>c \<in> set (map of_char ''fuseblk'' :: unicode). \<not> is_space c)"
    by blast
  then have b: "(map of_char ''fuseblk'' :: unicode) \<noteq> []
   \<and> list_all (\<lambda>c. \<not> is_space c) (map of_char ''fuseblk'' :: unicode)"
    unfolding list_all_iff .
  from n a is_basestring_some_file proc_ntfs_host_df fs b show ?thesis by blast
qed

end
